theory Spec2Isabelle
  imports Complex_Main
begin

section \<open>Errors\<close>

text \<open>
  \<^verbatim>\<open>utils/ApiError.ts\<close>: every error thrown by the services and controllers is an
  \<^verbatim>\<open>ApiError\<close> carrying an HTTP status code and a message. A function that can throw
  returns \<open>ApiError + 'a\<close>, with \<open>Inl\<close> for the thrown error.
\<close>

datatype ApiError = ApiError (statusCode: nat) (message: string)

definition NotFoundError :: "string \<Rightarrow> ApiError" where
  "NotFoundError resource = ApiError 404 (resource @ '' not found'')"

definition BadRequestError :: "string \<Rightarrow> ApiError" where
  "BadRequestError msg = ApiError 400 msg"


section \<open>Time strings (booking.service.ts)\<close>

text \<open>
  Times travel as \<^verbatim>\<open>HH:MM\<close> strings. \<^verbatim>\<open>validateTimeFormat\<close> tests the regular expression
  \<^verbatim>\<open>/^([0-1]?[0-9]|2[0-3]):[0-5][0-9]$/\<close>; its language is: one digit, or a digit
  \<open>0\<close>/\<open>1\<close> followed by any digit, or \<open>2\<close> followed by a digit \<open>0..3\<close>; then a colon;
  then a digit \<open>0..5\<close> and any digit.
\<close>

definition charIn :: "char \<Rightarrow> char \<Rightarrow> char \<Rightarrow> bool" where
  "charIn lo hi c = ((of_char lo :: nat) \<le> of_char c \<and> (of_char c :: nat) \<le> of_char hi)"

fun timeRegex_test :: "string \<Rightarrow> bool" where
  "timeRegex_test [h, c, m1, m2] =
     (charIn CHR ''0'' CHR ''9'' h \<and> c = CHR '':'' \<and>
      charIn CHR ''0'' CHR ''5'' m1 \<and> charIn CHR ''0'' CHR ''9'' m2)"
| "timeRegex_test [h1, h2, c, m1, m2] =
     (((charIn CHR ''0'' CHR ''1'' h1 \<and> charIn CHR ''0'' CHR ''9'' h2) \<or>
       (h1 = CHR ''2'' \<and> charIn CHR ''0'' CHR ''3'' h2)) \<and> c = CHR '':'' \<and>
      charIn CHR ''0'' CHR ''5'' m1 \<and> charIn CHR ''0'' CHR ''9'' m2)"
| "timeRegex_test _ = False"

definition validateTimeFormat :: "string \<Rightarrow> ApiError + unit" where
  "validateTimeFormat time =
     (if \<not> timeRegex_test time
      then Inl (ApiError 400 (''Invalid time format: '' @ time @ ''. Expected HH:MM''))
      else Inr ())"

text \<open>
  \<^verbatim>\<open>timeToMinutes\<close>: \<^verbatim>\<open>const [hours, minutes] = time.split(":").map(Number)\<close>. \<open>Number\<close> is
  the decimal value of a digit string; the model is meant for the strings the regular
  expression accepts (requests are validated first, stored times are held to the same
  pattern by the Booking schema), where both parts are digit strings.
\<close>

definition Number :: "string \<Rightarrow> nat" where
  "Number s = foldl (\<lambda>n c. 10 * n + (of_char c - 48)) 0 s"

definition split_colon :: "string \<Rightarrow> string \<times> string" where
  "split_colon s =
     (takeWhile (\<lambda>c. c \<noteq> CHR '':'') s,
      takeWhile (\<lambda>c. c \<noteq> CHR '':'') (drop 1 (dropWhile (\<lambda>c. c \<noteq> CHR '':'') s)))"

definition timeToMinutes :: "string \<Rightarrow> nat" where
  "timeToMinutes time =
     (case split_colon time of (hours, minutes) \<Rightarrow> Number hours * 60 + Number minutes)"

section \<open>Slot overlap detector (booking.service.ts, timeSlotsOverlap)\<close>

function timeSlotsOverlap :: "nat \<Rightarrow> nat \<Rightarrow> bool \<Rightarrow> nat \<Rightarrow> nat \<Rightarrow> bool \<Rightarrow> bool" where
  "timeSlotsOverlap start1 end1 crosses1 start2 end2 crosses2 =
     (if \<not> crosses1 \<and> \<not> crosses2 then start1 < end2 \<and> end1 > start2
      else if crosses1 \<and> \<not> crosses2 then
        (if start2 \<ge> start1 then True
         else if end2 \<le> end1 then True
         else False)
      else if \<not> crosses1 \<and> crosses2 then
        timeSlotsOverlap start2 end2 crosses2 start1 end1 crosses1
      else True)"
  by pat_completeness auto
termination
  by (relation "measure (\<lambda>(s1, e1, c1, s2, e2, c2). if \<not> c1 \<and> c2 then 1 else 0)") auto

declare timeSlotsOverlap.simps [simp del]

text \<open>
  The occupied minutes of an interval, in the words of the specification: an interval
  whose end is at or before its start occupies \<open>[start,1440)\<close> and \<open>[0,end)\<close>, any other
  interval occupies \<open>[start,end)\<close>.
\<close>

definition spec_occupied :: "nat \<Rightarrow> nat \<Rightarrow> nat set" where
  "spec_occupied s e = (if e \<le> s then {s..<1440} \<union> {0..<e} else {s..<e})"

section \<open>Dates\<close>

text \<open>
  A JavaScript \<^verbatim>\<open>Date\<close> is modelled as the number of milliseconds since the epoch on the
  server's local time line (no daylight saving). \<^verbatim>\<open>setHours(h, m, s, ms)\<close> keeps the
  calendar day and replaces the time of day; \<^verbatim>\<open>setDate(getDate() + n)\<close> moves by whole
  days; \<^verbatim>\<open>getDay()\<close> is the day of the week with 0 = Sunday (1970-01-01 was a Thursday).
\<close>

type_synonym Date = int

definition msPerDay :: int where "msPerDay = 86400000"

definition setHours :: "Date \<Rightarrow> int \<Rightarrow> int \<Rightarrow> int \<Rightarrow> int \<Rightarrow> Date" where
  "setHours t h m s ms = t - t mod msPerDay + h * 3600000 + m * 60000 + s * 1000 + ms"






section \<open>Stored bookings (models/Booking.ts)\<close>

text \<open>
  Documents are records with the schema's field names (\<open>booking_id\<close> for \<^verbatim>\<open>_id\<close>,
  \<open>booking_notes\<close> for \<^verbatim>\<open>notes\<close>); the fields of the small result objects carry a
  prefix. Object ids are natural numbers; JavaScript numbers that hold money are
  rationals; string enumerations are datatypes.
\<close>

type_synonym ObjectId = nat

datatype BookingStatus = pending | confirmed | completed | cancelled | no_show | blocked

datatype Days = Sun_Wed | Thu | Fri | Sat

datatype TimeSlot = Day | Night

datatype Category = Weekday_day | Weekday_night | Weekend_day | Weekend_night

record PricingBreakdownItem =
  item_hour :: string
  item_rate :: rat
  item_days :: Days
  item_category :: Category
  item_timeSlot :: TimeSlot

record Booking =
  booking_id :: ObjectId
  customer :: "ObjectId option"
  court :: ObjectId
  bookingDate :: Date
  startTime :: string
  endTime :: string
  durationHours :: rat
  totalPrice :: rat
  pricingBreakdown :: "PricingBreakdownItem list"
  promoCode :: "ObjectId option"
  discountAmount :: rat
  finalPrice :: rat
  paymentStatus :: string
  paymentId :: "string option"
  amountPaid :: rat
  status :: BookingStatus
  booking_notes :: "string option"
  createdBy :: string

section \<open>Availability checker (booking.service.ts)\<close>

record Conflict =
  conflict_bookingId :: ObjectId
  conflict_startTime :: string
  conflict_endTime :: string
  conflict_status :: BookingStatus

record AvailabilityResult =
  available :: bool
  conflicts :: "Conflict list option"

text \<open>
  Whether a stored booking conflicts with the request: the body of the loops of
  \<^verbatim>\<open>checkAvailability\<close> and \<^verbatim>\<open>checkBatchAvailability\<close>, which both compute the
  booking's minutes and its crossing flag and call \<^verbatim>\<open>timeSlotsOverlap\<close>.
\<close>

definition bookingOverlaps :: "nat \<Rightarrow> nat \<Rightarrow> bool \<Rightarrow> Booking \<Rightarrow> bool" where
  "bookingOverlaps requestStartMinutes requestEndMinutes crossesMidnight booking =
     (let bookingStartMinutes = timeToMinutes (startTime booking);
          bookingEndMinutes = timeToMinutes (endTime booking);
          bookingCrossesMidnight = bookingEndMinutes < bookingStartMinutes
      in timeSlotsOverlap requestStartMinutes requestEndMinutes crossesMidnight
           bookingStartMinutes bookingEndMinutes bookingCrossesMidnight)"

text \<open>
  \<^verbatim>\<open>checkAvailability\<close>. The store is the list of Booking documents; the query is
  \<^verbatim>\<open>{court: courtId, bookingDate: dateObj, status: {$nin: ["cancelled"]}}\<close>, an exact
  match on the date, with \<^verbatim>\<open>_id: {$ne: excludeBookingId}\<close> when an id is given.
\<close>

definition checkAvailability ::
  "Booking list \<Rightarrow> ObjectId \<Rightarrow> Date \<Rightarrow> string \<Rightarrow> string \<Rightarrow> ObjectId option
     \<Rightarrow> ApiError + AvailabilityResult" where
  "checkAvailability store courtId bookingDate' startTime' endTime' excludeBookingId =
     (case validateTimeFormat startTime' of Inl e \<Rightarrow> Inl e | Inr _ \<Rightarrow>
     (case validateTimeFormat endTime' of Inl e \<Rightarrow> Inl e | Inr _ \<Rightarrow>
      let requestStartMinutes = timeToMinutes startTime';
          requestEndMinutes = timeToMinutes endTime';
          crossesMidnight = requestEndMinutes < requestStartMinutes;
          dateObj = setHours bookingDate' 0 0 0 0;
          existingBookings =
            filter (\<lambda>b. court b = courtId \<and> bookingDate b = dateObj \<and> status b \<noteq> cancelled \<and>
                        (case excludeBookingId of None \<Rightarrow> True | Some x \<Rightarrow> booking_id b \<noteq> x))
              store;
          conflicts' =
            map (\<lambda>b. \<lparr>conflict_bookingId = booking_id b, conflict_startTime = startTime b,
                        conflict_endTime = endTime b, conflict_status = status b\<rparr>)
              (filter (bookingOverlaps requestStartMinutes requestEndMinutes crossesMidnight)
                 existingBookings)
      in Inr \<lparr>available = (length conflicts' = 0),
              conflicts = (if length conflicts' > 0 then Some conflicts' else None)\<rparr>))"

text \<open>
  \<^verbatim>\<open>checkBatchAvailability\<close>. All slots are validated first, in order. The query is a
  range over the day, \<^verbatim>\<open>bookingDate: {$gte: dateObj, $lte: endOfDay}\<close>, restricted to the
  requested courts when a non-empty list is given. \<^verbatim>\<open>courtBookingsMap\<close> is a JavaScript
  \<^verbatim>\<open>Map\<close>, which keeps its keys in insertion order: an association list.
\<close>

fun validateSlots :: "(string \<times> string) list \<Rightarrow> ApiError + unit" where
  "validateSlots [] = Inr ()"
| "validateSlots ((startTime', endTime') # slots) =
     (case validateTimeFormat startTime' of Inl e \<Rightarrow> Inl e | Inr _ \<Rightarrow>
     (case validateTimeFormat endTime' of Inl e \<Rightarrow> Inl e | Inr _ \<Rightarrow>
      validateSlots slots))"

definition courtBookingsMap_push ::
  "Booking \<Rightarrow> (ObjectId \<times> Booking list) list \<Rightarrow> (ObjectId \<times> Booking list) list" where
  "courtBookingsMap_push booking m =
     (let courtId = court booking;
          m' = (if map_of m courtId = None then m @ [(courtId, [])] else m)
      in map (\<lambda>(k, bs). if k = courtId then (k, bs @ [booking]) else (k, bs)) m')"

record SlotAvailability =
  slot_available :: bool
  slot_startTime :: string
  slot_endTime :: string

definition timeSlotKey :: "string \<times> string \<Rightarrow> string" where
  "timeSlotKey slot = fst slot @ ''-'' @ snd slot"

definition checkSlot :: "Booking list \<Rightarrow> string \<times> string \<Rightarrow> SlotAvailability" where
  "checkSlot courtBookings slot =
     (let requestStartMinutes = timeToMinutes (fst slot);
          requestEndMinutes = timeToMinutes (snd slot);
          crossesMidnight = requestEndMinutes < requestStartMinutes;
          hasConflict =
            list_ex (bookingOverlaps requestStartMinutes requestEndMinutes crossesMidnight)
              courtBookings
      in \<lparr>slot_available = (\<not> hasConflict), slot_startTime = fst slot,
           slot_endTime = snd slot\<rparr>)"

type_synonym BatchAvailabilityResult = "ObjectId \<rightharpoonup> (string \<rightharpoonup> SlotAvailability)"

definition checkBatchAvailability ::
  "Booking list \<Rightarrow> Date \<Rightarrow> (string \<times> string) list \<Rightarrow> ObjectId list option
     \<Rightarrow> ApiError + BatchAvailabilityResult" where
  "checkBatchAvailability store bookingDate' timeSlots courtIds =
     (case validateSlots timeSlots of Inl e \<Rightarrow> Inl e | Inr _ \<Rightarrow>
      let dateObj = setHours bookingDate' 0 0 0 0;
          endOfDay = setHours dateObj 23 59 59 999;
          existingBookings =
            filter (\<lambda>b. dateObj \<le> bookingDate b \<and> bookingDate b \<le> endOfDay \<and>
                        status b \<noteq> cancelled \<and>
                        (case courtIds of
                           None \<Rightarrow> True
                         | Some cs \<Rightarrow> if length cs > 0 then court b \<in> set cs else True))
              store;
          courtBookingsMap = fold courtBookingsMap_push existingBookings [];
          courtsToCheck = (case courtIds of Some cs \<Rightarrow> cs | None \<Rightarrow> map fst courtBookingsMap)
      in Inr (fold
           (\<lambda>courtId result.
              let courtBookings =
                    (case map_of courtBookingsMap courtId of Some bs \<Rightarrow> bs | None \<Rightarrow> [])
              in result(courtId \<mapsto>
                   fold (\<lambda>slot r. r(timeSlotKey slot \<mapsto> checkSlot courtBookings slot))
                     timeSlots Map.empty))
           courtsToCheck Map.empty))"


text \<open>The non-cancelled bookings the batch query returns for a day, for all courts.\<close>

definition dayBookings :: "Booking list \<Rightarrow> Date \<Rightarrow> Booking list" where
  "dayBookings store d =
     filter (\<lambda>b. setHours d 0 0 0 0 \<le> bookingDate b \<and>
                 bookingDate b \<le> setHours (setHours d 0 0 0 0) 23 59 59 999 \<and>
                 status b \<noteq> cancelled) store"

text \<open>Reading \<^verbatim>\<open>result[courtId][timeSlotKey].available\<close> off a batch result.\<close>

definition lookupAvailable ::
  "ApiError + BatchAvailabilityResult \<Rightarrow> ObjectId \<Rightarrow> string \<Rightarrow> bool option" where
  "lookupAvailable res courtId key =
     (case res of Inl e \<Rightarrow> None
      | Inr result \<Rightarrow>
         (case result courtId of None \<Rightarrow> None
          | Some m \<Rightarrow> map_option slot_available (m key)))"

section \<open>Interval validation (booking.service.ts)\<close>

text \<open>
  \<^verbatim>\<open>validateBookingTime\<close>; \<open>now\<close> is the value of \<^verbatim>\<open>new Date()\<close>. Minutes are JavaScript
  numbers, here integers.
\<close>

definition validateBookingTime :: "Date \<Rightarrow> string \<Rightarrow> string \<Rightarrow> Date \<Rightarrow> ApiError + unit" where
  "validateBookingTime now startTime' endTime' bookingDate' =
     (case validateTimeFormat startTime' of Inl e \<Rightarrow> Inl e | Inr _ \<Rightarrow>
     (case validateTimeFormat endTime' of Inl e \<Rightarrow> Inl e | Inr _ \<Rightarrow>
      let startMinutes = int (timeToMinutes startTime');
          endMinutes = int (timeToMinutes endTime');
          crossesMidnight = endMinutes < startMinutes;
          durationMinutes =
            (if crossesMidnight then 24 * 60 - startMinutes + endMinutes
             else endMinutes - startMinutes);
          operatingStart = 9 * 60;
          operatingEnd = 4 * 60
      in if durationMinutes < 60
         then Inl (ApiError 400 ''Booking duration must be at least 1 hour'')
         else if durationMinutes mod 30 \<noteq> 0
         then Inl (ApiError 400 ''Booking duration must be in 30-minute increments'')
         else if \<not> (startMinutes \<ge> operatingStart \<or> startMinutes < operatingEnd)
         then Inl (ApiError 400 ''Booking start time must be between 9:00 AM and 4:00 AM'')
         else if crossesMidnight \<and> endMinutes > operatingEnd
         then Inl (ApiError 400 ''Booking cannot end after 4:00 AM'')
         else if \<not> crossesMidnight \<and> startMinutes \<ge> operatingStart \<and> endMinutes \<le> operatingStart
         then Inl (ApiError 400 ''Invalid booking time'')
         else if setHours bookingDate' 0 0 0 0 < setHours now 0 0 0 0
         then Inl (ApiError 400 ''Cannot book in the past'')
         else Inr ()))"


section \<open>Pricing engine (pricing.service.ts)\<close>

record PricingRule =
  rule_days :: Days
  rule_timeSlot :: TimeSlot
  rule_category :: Category
  pricePerHour :: rat
  rule_isActive :: bool




















section \<open>Promo code ledger (promoCode.service.ts)\<close>

datatype DiscountType = percentage | fixed

record PromoCode =
  promo_id :: ObjectId
  code :: string
  discountType :: DiscountType
  discountValue :: rat
  maxTotalUses :: "nat option"
  usedByCustomers :: "ObjectId list"
  promo_isActive :: bool
  expiresAt :: Date

text \<open>
  Customer documents; the schema's trimming of name and phone and lower-casing of the
  e-mail address are not modelled (the strings are taken as already normalised).
\<close>

record Customer =
  customer_id :: ObjectId
  customer_name :: string
  phone :: string
  email :: "string option"
  totalBookings :: nat




text \<open>
  The messages of a validation result, in the order of the checks: "Invalid promo code",
  "This promo code is no longer active", "This promo code has expired", "You have
  already used this promo code", "This promo code usage limit has been reached", and
  "Promo code applied! You saved \<open>n\<close> SAR" with the discount \<open>n\<close>.
\<close>

datatype PromoMessage =
  Invalid_promo_code | No_longer_active | Has_expired | Already_used | Usage_limit_reached
| Promo_applied rat

record PromoCodeValidationResult =
  valid :: bool
  result_message :: PromoMessage
  result_discount :: "rat option"
  result_finalAmount :: "rat option"
  result_promoCodeId :: "ObjectId option"




text \<open>
  \<^verbatim>\<open>findById\<close> is the first document with the id; \<^verbatim>\<open>save()\<close> writes the changed document
  back in the place of the stored one with its id.
\<close>

definition promo_findById :: "PromoCode list \<Rightarrow> ObjectId \<Rightarrow> PromoCode option" where
  "promo_findById promoCodes i = find (\<lambda>p. promo_id p = i) promoCodes"

definition promo_save :: "PromoCode \<Rightarrow> PromoCode list \<Rightarrow> PromoCode list" where
  "promo_save doc promoCodes = map (\<lambda>p. if promo_id p = promo_id doc then doc else p) promoCodes"

definition markAsUsed :: "PromoCode list \<Rightarrow> ObjectId \<Rightarrow> ObjectId \<Rightarrow> ApiError + PromoCode list" where
  "markAsUsed promoCodes promoCodeId customerId =
     (case promo_findById promoCodes promoCodeId of
        None \<Rightarrow> Inl (NotFoundError ''Promo code'')
      | Some promoCode' \<Rightarrow>
          if customerId \<in> set (usedByCustomers promoCode')
          then Inl (BadRequestError ''Promo code already used by this customer'')
          else Inr (promo_save
                 (promoCode'\<lparr>usedByCustomers := usedByCustomers promoCode' @ [customerId]\<rparr>)
                 promoCodes))"

definition removeUsage :: "PromoCode list \<Rightarrow> ObjectId \<Rightarrow> ObjectId \<Rightarrow> PromoCode list" where
  "removeUsage promoCodes promoCodeId customerId =
     (case promo_findById promoCodes promoCodeId of
        None \<Rightarrow> promoCodes
      | Some promoCode' \<Rightarrow>
          promo_save
            (promoCode'\<lparr>usedByCustomers :=
                 filter (\<lambda>i. i \<noteq> customerId) (usedByCustomers promoCode')\<rparr>)
            promoCodes)"

section \<open>Controllers (booking.controller.ts)\<close>

datatype CourtStatus = Active | Inactive | Maintenance

record Court =
  court_id :: ObjectId
  court_name :: string
  court_status :: CourtStatus

text \<open>
  The collections the controllers read and write. \<open>nextId\<close> supplies the \<^verbatim>\<open>_id\<close> of a
  created document. A controller returns what it answers (a thrown error, or the
  response) together with the store it leaves: there is no transaction, so writes made
  before a later error stay. Sending e-mail and writing to the console leave the store
  as it is and are not modelled; \<^verbatim>\<open>populate\<close> only joins referenced documents into the
  answer, whose data is the Booking document itself here.
\<close>

record Database =
  bookings :: "Booking list"
  customers :: "Customer list"
  promoCodes :: "PromoCode list"
  courts :: "Court list"
  pricingRules :: "PricingRule list"
  nextId :: ObjectId


record Response =
  response_status :: nat
  response_data :: "Booking option"
  response_message :: string

text \<open>JavaScript truthiness of an optional string: present and not empty.\<close>

definition truthy :: "string option \<Rightarrow> bool" where
  "truthy s = (case s of None \<Rightarrow> False | Some x \<Rightarrow> x \<noteq> [])"

definition booking_findById :: "Booking list \<Rightarrow> ObjectId \<Rightarrow> Booking option" where
  "booking_findById bs i = find (\<lambda>b. booking_id b = i) bs"

definition booking_save :: "Booking \<Rightarrow> Booking list \<Rightarrow> Booking list" where
  "booking_save doc bs = map (\<lambda>b. if booking_id b = booking_id doc then doc else b) bs"




definition cancelBooking ::
  "Database \<Rightarrow> ObjectId \<Rightarrow> string option \<Rightarrow> (ApiError + Response) \<times> Database" where
  "cancelBooking db i reason =
     (case booking_findById (bookings db) i of
        None \<Rightarrow> (Inl (NotFoundError ''Booking''), db)
      | Some booking \<Rightarrow>
          if status booking = cancelled
          then (Inl (BadRequestError ''Booking is already cancelled''), db)
          else if status booking = completed
          then (Inl (BadRequestError ''Cannot cancel completed booking''), db)
          else
           (let booking' = booking\<lparr>status := cancelled,
                  booking_notes :=
                    (if truthy reason
                     then (if truthy (booking_notes booking)
                           then Some (the (booking_notes booking) @ [CHR 0x0A] @
                                      ''Cancellation reason: '' @ the reason)
                           else Some (''Cancellation reason: '' @ the reason))
                     else booking_notes booking)\<rparr>;
                db1 = db\<lparr>bookings := booking_save booking' (bookings db)\<rparr>;
                db2 = (case (promoCode booking', customer booking') of
                         (Some pc, Some cu) \<Rightarrow>
                            db1\<lparr>promoCodes := removeUsage (promoCodes db1) pc cu\<rparr>
                       | _ \<Rightarrow> db1)
            in (Inr \<lparr>response_status = 200,
                     response_data = booking_findById (bookings db2) (booking_id booking'),
                     response_message = ''Booking cancelled successfully''\<rparr>, db2)))"



section \<open>Example data\<close>

text \<open>
  2026-02-12, a Thursday, at local midnight; a confirmed booking 18:00-20:00 on court 1
  that day; the same booking dated three hours into the day; the rate table with one
  active rule per bucket pair.
\<close>

definition exampleDate :: Date where "exampleDate = 1770854400000"

definition exampleBooking :: Booking where
  "exampleBooking =
     \<lparr>booking_id = 7, customer = Some 3, court = 1, bookingDate = exampleDate,
      startTime = ''18:00'', endTime = ''20:00'', durationHours = 2, totalPrice = 180,
      pricingBreakdown = [], promoCode = None, discountAmount = 0, finalPrice = 180,
      paymentStatus = ''paid'', paymentId = Some ''pay_1'', amountPaid = 180,
      status = confirmed, booking_notes = None, createdBy = ''customer''\<rparr>"


text \<open>A booking on court 1 that day from 23:00 to 02:00.\<close>

definition lateBooking :: Booking where
  "lateBooking = exampleBooking\<lparr>startTime := ''23:00'', endTime := ''02:00''\<rparr>"

definition exampleRules :: "PricingRule list" where
  "exampleRules =
     [\<lparr>rule_days = Sun_Wed, rule_timeSlot = Day, rule_category = Weekday_day,
       pricePerHour = 90, rule_isActive = True\<rparr>,
      \<lparr>rule_days = Sun_Wed, rule_timeSlot = Night, rule_category = Weekday_night,
       pricePerHour = 110, rule_isActive = True\<rparr>,
      \<lparr>rule_days = Thu, rule_timeSlot = Day, rule_category = Weekday_day,
       pricePerHour = 90, rule_isActive = True\<rparr>,
      \<lparr>rule_days = Thu, rule_timeSlot = Night, rule_category = Weekend_night,
       pricePerHour = 135, rule_isActive = True\<rparr>,
      \<lparr>rule_days = Fri, rule_timeSlot = Day, rule_category = Weekend_day,
       pricePerHour = 110, rule_isActive = True\<rparr>,
      \<lparr>rule_days = Fri, rule_timeSlot = Night, rule_category = Weekend_night,
       pricePerHour = 135, rule_isActive = True\<rparr>,
      \<lparr>rule_days = Sat, rule_timeSlot = Day, rule_category = Weekend_day,
       pricePerHour = 110, rule_isActive = True\<rparr>,
      \<lparr>rule_days = Sat, rule_timeSlot = Night, rule_category = Weekday_night,
       pricePerHour = 110, rule_isActive = True\<rparr>]"

text \<open>A 20 per cent code, and a customer record.\<close>

definition examplePromo :: PromoCode where
  "examplePromo =
     \<lparr>promo_id = 11, code = ''WELCOME20'', discountType = percentage, discountValue = 20,
      maxTotalUses = None, usedByCustomers = [], promo_isActive = True,
      expiresAt = exampleDate + 7 * msPerDay\<rparr>"

definition exampleCustomer :: Customer where
  "exampleCustomer =
     \<lparr>customer_id = 3, customer_name = ''Sara'', phone = ''0500000001'', email = None,
      totalBookings = 1\<rparr>"


text \<open>
  A store holding the example documents; the example booking once cancelled; a creation
  request that carries the payment reference of the stored booking, and the same
  request with an empty customer name.
\<close>

definition exampleDatabase :: Database where
  "exampleDatabase =
     \<lparr>bookings = [exampleBooking], customers = [exampleCustomer], promoCodes = [examplePromo],
      courts = [\<lparr>court_id = 1, court_name = ''Court A'', court_status = Active\<rparr>],
      pricingRules = exampleRules, nextId = 20\<rparr>"



definition cancelledBooking :: Booking where
  "cancelledBooking = exampleBooking\<lparr>status := cancelled\<rparr>"


section \<open>Shared lemmas\<close>

lemma find_Some_set: "find P xs = Some x \<Longrightarrow> x \<in> set xs \<and> P x"
  by (induction xs) (auto split: if_splits)

subsection \<open>The pricing loop\<close>




























section \<open>Results\<close>

text \<open>
  C1. The claim: \<open>timeSlotsOverlap\<close> returns true exactly when the occupied minute sets
  of the two intervals intersect; in particular an existing 23:00-02:00 reservation
  tested against a 01:00-03:00 request yields true. On the code the scenario yields
  false: the request 01:00-03:00 (minutes 60..180, not crossing) against the stored
  23:00-02:00 (minutes 1380..120, crossing) is answered by the branch for a crossing
  first slot, which tests only \<open>start2 \<ge> start1\<close> and \<open>end2 \<le> end1\<close>, although minute
  60 is occupied by both; the availability check then reports the slot as free.
\<close>

theorem C1_overlap_scenario_missed:
  "timeSlotsOverlap (timeToMinutes ''01:00'') (timeToMinutes ''03:00'')
       (timeToMinutes ''03:00'' < timeToMinutes ''01:00'')
       (timeToMinutes ''23:00'') (timeToMinutes ''02:00'')
       (timeToMinutes ''02:00'' < timeToMinutes ''23:00'') = False
   \<and> 60 \<in> spec_occupied (timeToMinutes ''01:00'') (timeToMinutes ''03:00'')
          \<inter> spec_occupied (timeToMinutes ''23:00'') (timeToMinutes ''02:00'')
   \<and> checkAvailability [lateBooking] 1 exampleDate ''01:00'' ''03:00'' None
         = Inr \<lparr>available = True, conflicts = None\<rparr>"
proof -
  have "60 \<in> spec_occupied (timeToMinutes ''01:00'') (timeToMinutes ''03:00'')
          \<inter> spec_occupied (timeToMinutes ''23:00'') (timeToMinutes ''02:00'')"
    by (simp add: timeToMinutes_def split_colon_def Number_def spec_occupied_def)
  moreover have "timeSlotsOverlap (timeToMinutes ''01:00'') (timeToMinutes ''03:00'')
       (timeToMinutes ''03:00'' < timeToMinutes ''01:00'')
       (timeToMinutes ''23:00'') (timeToMinutes ''02:00'')
       (timeToMinutes ''02:00'' < timeToMinutes ''23:00'') = False"
    by code_simp
  moreover have "checkAvailability [lateBooking] 1 exampleDate ''01:00'' ''03:00'' None
         = Inr \<lparr>available = True, conflicts = None\<rparr>"
    by code_simp
  ultimately show ?thesis by simp
qed

subsection \<open>The day-bucket of the early hours\<close>





subsection \<open>Batch availability against the single check\<close>

lemma validateSlots_ok:
  "(\<forall>slot \<in> set timeSlots. timeRegex_test (fst slot) \<and> timeRegex_test (snd slot))
   \<Longrightarrow> validateSlots timeSlots = Inr ()"
  by (induction timeSlots) (auto simp: validateTimeFormat_def)



lemma push_keys:
  "fst ` set (courtBookingsMap_push b m) = insert (court b) (fst ` set m)"
  unfolding courtBookingsMap_push_def Let_def
  by (force simp: map_of_eq_None_iff image_iff split: if_splits)


lemma fold_push_keys:
  "fst ` set (fold courtBookingsMap_push bs m) = fst ` set m \<union> court ` set bs"
  by (induction bs arbitrary: m) (auto simp: push_keys)



lemma fold_upd_dom:
  "dom (fold (\<lambda>x r. r(f x \<mapsto> g x)) xs m) = dom m \<union> f ` set xs"
  by (induction xs arbitrary: m) auto







lemma single_result:
  assumes "timeRegex_test (fst slot)" "timeRegex_test (snd slot)"
  shows "\<exists>r. checkAvailability store courtId d (fst slot) (snd slot) None = Inr r \<and>
     available r = (\<not> list_ex (bookingOverlaps (timeToMinutes (fst slot)) (timeToMinutes (snd slot))
                      (timeToMinutes (snd slot) < timeToMinutes (fst slot)))
                  (filter (\<lambda>b. court b = courtId \<and> bookingDate b = setHours d 0 0 0 0 \<and>
                              status b \<noteq> cancelled) store))"
  using assms
  by (auto simp: checkAvailability_def validateTimeFormat_def Let_def list_ex_iff filter_empty_conv)



lemma range_self: "setHours d 0 0 0 0 \<le> setHours (setHours d 0 0 0 0) 23 59 59 999"
  by (simp add: setHours_def msPerDay_def minus_mod_eq_div_mult)

text \<open>
  C10. Called without a list of court ids (and with well-formed slots), the batch check
  returns a map whose keys are exactly the courts that have a non-cancelled booking
  dated within the requested day; every other court has no entry, although the single
  check reports it available for each requested slot.
\<close>

theorem C10_batch_without_courts:
  assumes valid: "\<forall>slot \<in> set timeSlots. timeRegex_test (fst slot) \<and> timeRegex_test (snd slot)"
  shows "\<exists>result. checkBatchAvailability store d timeSlots None = Inr result \<and>
           dom result = court ` set (dayBookings store d) \<and>
           (\<forall>c. c \<notin> court ` set (dayBookings store d) \<longrightarrow>
                result c = None \<and>
                (\<forall>slot \<in> set timeSlots. \<exists>r.
                    checkAvailability store c d (fst slot) (snd slot) None = Inr r \<and> available r))"
proof -
  define cbm where "cbm = fold courtBookingsMap_push (dayBookings store d) []"
  define G where "G = (\<lambda>k. fold (\<lambda>slot r. r(timeSlotKey slot \<mapsto>
      checkSlot (case map_of cbm k of Some bs \<Rightarrow> bs | None \<Rightarrow> []) slot)) timeSlots Map.empty)"
  define result where "result = fold (\<lambda>k res. res(k \<mapsto> G k)) (map fst cbm) Map.empty"
  have run: "checkBatchAvailability store d timeSlots None = Inr result"
    unfolding checkBatchAvailability_def result_def G_def cbm_def dayBookings_def
    by (simp add: validateSlots_ok [OF valid] Let_def)
  have "dom result = (\<lambda>k. k) ` set (map fst cbm)"
    unfolding result_def using fold_upd_dom [of "\<lambda>k. k" G "map fst cbm" Map.empty] by simp
  also have "\<dots> = court ` set (dayBookings store d)"
    unfolding cbm_def using fold_push_keys [of "dayBookings store d" "[]"] by simp
  finally have d: "dom result = court ` set (dayBookings store d)" .
  have free: "\<exists>r. checkAvailability store c d (fst slot) (snd slot) None = Inr r \<and> available r"
    if c: "c \<notin> court ` set (dayBookings store d)" and slot: "slot \<in> set timeSlots" for c slot
  proof -
    from valid slot have v: "timeRegex_test (fst slot)" "timeRegex_test (snd slot)" by auto
    have "b \<in> set (dayBookings store d)"
      if "b \<in> set store" "bookingDate b = setHours d 0 0 0 0" "status b \<noteq> cancelled" for b
      using that range_self [of d] by (simp add: dayBookings_def)
    with c have "filter (\<lambda>b. court b = c \<and> bookingDate b = setHours d 0 0 0 0 \<and>
                              status b \<noteq> cancelled) store = []"
      unfolding filter_empty_conv by blast
    with single_result [OF v, of store c d] show ?thesis by auto
  qed
  show ?thesis using run d free by (intro exI [of _ result]) (auto simp: domIff)
qed

text \<open>
  The booked court 1 has an entry, court 2 has none and is available.
\<close>

theorem C10_batch_without_courts_witness:
  "timeRegex_test ''19:00'' \<and> timeRegex_test ''21:00'' \<and>
   lookupAvailable
     (checkBatchAvailability [exampleBooking] exampleDate [(''19:00'', ''21:00'')] None)
     1 ''19:00-21:00'' = Some False \<and>
   lookupAvailable
     (checkBatchAvailability [exampleBooking] exampleDate [(''19:00'', ''21:00'')] None)
     2 ''19:00-21:00'' = None \<and>
   (\<exists>r. checkAvailability [exampleBooking] 2 exampleDate ''19:00'' ''21:00'' None = Inr r \<and>
        available r)"
proof -
  have v: "\<forall>slot \<in> set [(''19:00'', ''21:00'')]. timeRegex_test (fst slot) \<and> timeRegex_test (snd slot)"
    by (simp add: charIn_def)
  have db: "dayBookings [exampleBooking] exampleDate = [exampleBooking]"
    by (simp add: dayBookings_def exampleBooking_def exampleDate_def setHours_def msPerDay_def)
  from C10_batch_without_courts [OF v, of "[exampleBooking]" exampleDate]
  obtain result where r:
    "checkBatchAvailability [exampleBooking] exampleDate [(''19:00'', ''21:00'')] None = Inr result"
    "dom result = {1}"
    "\<forall>c. c \<noteq> 1 \<longrightarrow> result c = None \<and>
         (\<exists>r. checkAvailability [exampleBooking] c exampleDate ''19:00'' ''21:00'' None = Inr r \<and>
              available r)"
    unfolding db by (auto simp: exampleBooking_def)
  have one: "lookupAvailable
     (checkBatchAvailability [exampleBooking] exampleDate [(''19:00'', ''21:00'')] None)
     1 ''19:00-21:00'' = Some False"
    by code_simp
  from r(3) have two: "result 2 = None \<and>
         (\<exists>r. checkAvailability [exampleBooking] 2 exampleDate ''19:00'' ''21:00'' None = Inr r \<and>
              available r)" by simp
  show ?thesis using one two r(1) v by (simp add: lookupAvailable_def)
qed



subsection \<open>Replay by payment reference\<close>








subsection \<open>Cancelling twice\<close>

text \<open>
  C5 as stated fails: cancelling a booking that is already cancelled is answered with
  the error "Booking is already cancelled" (status 400), by an explicit check.
\<close>

theorem C5_counterexample:
  "cancelBooking (exampleDatabase\<lparr>bookings := [cancelledBooking]\<rparr>) 7 None
     = (Inl (ApiError 400 ''Booking is already cancelled''),
        exampleDatabase\<lparr>bookings := [cancelledBooking]\<rparr>)"
  by (simp add: cancelBooking_def booking_findById_def exampleDatabase_def cancelledBooking_def
      exampleBooking_def BadRequestError_def)

text \<open>
  C5 (as amended). For every stored booking whose status is already cancelled, cancel
  leaves the whole store unchanged and reports the error "Booking is already
  cancelled" to the caller.
\<close>

theorem C5_cancel_again_rejected:
  assumes "booking_findById (bookings db) i = Some b" "status b = cancelled"
  shows "cancelBooking db i reason = (Inl (ApiError 400 ''Booking is already cancelled''), db)"
  using assms by (simp add: cancelBooking_def BadRequestError_def)

text \<open>A second cancel of the cancelled example booking.\<close>

theorem C5_cancel_again_rejected_witness:
  "booking_findById (bookings (exampleDatabase\<lparr>bookings := [cancelledBooking]\<rparr>)) 7
     = Some cancelledBooking \<and>
   status cancelledBooking = cancelled \<and>
   cancelBooking (exampleDatabase\<lparr>bookings := [cancelledBooking]\<rparr>) 7 (Some ''again'')
     = (Inl (ApiError 400 ''Booking is already cancelled''),
        exampleDatabase\<lparr>bookings := [cancelledBooking]\<rparr>)"
proof -
  have f: "booking_findById (bookings (exampleDatabase\<lparr>bookings := [cancelledBooking]\<rparr>)) 7
     = Some cancelledBooking"
    by (simp add: booking_findById_def cancelledBooking_def exampleBooking_def)
  have s: "status cancelledBooking = cancelled" by (simp add: cancelledBooking_def)
  from C5_cancel_again_rejected [OF f s, of "Some ''again''"] f s show ?thesis by simp
qed



subsection \<open>Intervals that end at or before their start\<close>

lemma tm_examples:
  "timeToMinutes ''10:00'' = 600" "timeToMinutes ''18:00'' = 1080" "timeToMinutes ''20:00'' = 1200"
  "timeToMinutes ''23:00'' = 1380" "timeToMinutes ''02:00'' = 120"
  by (simp_all add: timeToMinutes_def split_colon_def Number_def)

text \<open>
  C6 as stated fails for an end time equal to the start time: the code takes
  \<open>endMinutes < startMinutes\<close> as the crossing test, so 10:00-10:00 is a non-crossing
  interval of length zero. Validation rejects it, and the availability check finds no
  conflict with a stored 18:00-20:00 booking, which an interval occupying
  \<open>[600,1440)\<close> and \<open>[0,600)\<close> would overlap.
\<close>

theorem C6_counterexample:
  "validateBookingTime exampleDate ''10:00'' ''10:00'' exampleDate
     = Inl (ApiError 400 ''Booking duration must be at least 1 hour'') \<and>
   checkAvailability [exampleBooking] 1 exampleDate ''10:00'' ''10:00'' None
     = Inr \<lparr>available = True, conflicts = None\<rparr> \<and>
   1080 \<in> spec_occupied (timeToMinutes ''10:00'') (timeToMinutes ''10:00'')
          \<inter> spec_occupied (timeToMinutes ''18:00'') (timeToMinutes ''20:00'')"
proof -
  have "validateBookingTime exampleDate ''10:00'' ''10:00'' exampleDate
     = Inl (ApiError 400 ''Booking duration must be at least 1 hour'')"
    by code_simp
  moreover have "checkAvailability [exampleBooking] 1 exampleDate ''10:00'' ''10:00'' None
     = Inr \<lparr>available = True, conflicts = None\<rparr>"
    by code_simp
  moreover have "1080 \<in> spec_occupied (timeToMinutes ''10:00'') (timeToMinutes ''10:00'')
          \<inter> spec_occupied (timeToMinutes ''18:00'') (timeToMinutes ''20:00'')"
    by (simp add: tm_examples spec_occupied_def)
  ultimately show ?thesis by simp
qed

text \<open>
  C6 (as amended). For well-formed times whose end minute is strictly less than the
  start minute, validation uses the duration \<open>1440 - start + end\<close> and rejects only for
  a duration under 60 minutes or off the 30-minute grid, a start outside the operating
  window, an end after 04:00 or a date in the past; and the availability check passes
  the request to the overlap detector as a midnight-crossing interval. An end minute
  equal to the start minute is rejected with "Booking duration must be at least 1 hour".
\<close>

theorem C6_earlier_end_crosses_midnight:
  assumes "timeRegex_test s" "timeRegex_test e"
  shows "(timeToMinutes e < timeToMinutes s \<longrightarrow>
          validateBookingTime now s e d =
            (let startMinutes = int (timeToMinutes s); endMinutes = int (timeToMinutes e);
                 durationMinutes = 1440 - startMinutes + endMinutes
             in if durationMinutes < 60
                then Inl (ApiError 400 ''Booking duration must be at least 1 hour'')
                else if durationMinutes mod 30 \<noteq> 0
                then Inl (ApiError 400 ''Booking duration must be in 30-minute increments'')
                else if \<not> (startMinutes \<ge> 540 \<or> startMinutes < 240)
                then Inl (ApiError 400 ''Booking start time must be between 9:00 AM and 4:00 AM'')
                else if endMinutes > 240
                then Inl (ApiError 400 ''Booking cannot end after 4:00 AM'')
                else if setHours d 0 0 0 0 < setHours now 0 0 0 0
                then Inl (ApiError 400 ''Cannot book in the past'')
                else Inr ()) \<and>
          (\<exists>r. checkAvailability store c d s e None = Inr r \<and>
               available r =
                 (\<not> list_ex (bookingOverlaps (timeToMinutes s) (timeToMinutes e) True)
                      (filter (\<lambda>b. court b = c \<and> bookingDate b = setHours d 0 0 0 0 \<and>
                                  status b \<noteq> cancelled) store)))) \<and>
         (timeToMinutes e = timeToMinutes s \<longrightarrow>
          validateBookingTime now s e d
            = Inl (ApiError 400 ''Booking duration must be at least 1 hour''))"
  using assms
  by (auto simp: validateBookingTime_def checkAvailability_def validateTimeFormat_def Let_def
      list_ex_iff filter_empty_conv)

text \<open>The interval 23:00-02:00 is accepted and checked as crossing midnight.\<close>

theorem C6_earlier_end_crosses_midnight_witness:
  "timeRegex_test ''23:00'' \<and> timeRegex_test ''02:00'' \<and>
   timeToMinutes ''02:00'' < timeToMinutes ''23:00'' \<and>
   validateBookingTime exampleDate ''23:00'' ''02:00'' exampleDate = Inr () \<and>
   (\<exists>r. checkAvailability [exampleBooking] 1 exampleDate ''23:00'' ''02:00'' None = Inr r \<and>
        available r =
          (\<not> list_ex (bookingOverlaps (timeToMinutes ''23:00'') (timeToMinutes ''02:00'') True)
                [exampleBooking]))"
proof -
  have v: "timeRegex_test ''23:00''" "timeRegex_test ''02:00''" by (simp_all add: charIn_def)
  have lt: "timeToMinutes ''02:00'' < timeToMinutes ''23:00''" by (simp add: tm_examples)
  have f: "filter (\<lambda>b. court b = 1 \<and> bookingDate b = setHours exampleDate 0 0 0 0 \<and>
                       status b \<noteq> cancelled) [exampleBooking] = [exampleBooking]"
    by (simp add: exampleBooking_def exampleDate_def setHours_def msPerDay_def)
  note th = C6_earlier_end_crosses_midnight [OF v, of exampleDate exampleDate "[exampleBooking]" 1,
      THEN conjunct1, THEN mp, OF lt]
  from th [THEN conjunct1]
  have a: "validateBookingTime exampleDate ''23:00'' ''02:00'' exampleDate = Inr ()"
    by (simp add: tm_examples Let_def)
  from th [THEN conjunct2]
  have b: "\<exists>r. checkAvailability [exampleBooking] 1 exampleDate ''23:00'' ''02:00'' None = Inr r \<and>
        available r =
          (\<not> list_ex (bookingOverlaps (timeToMinutes ''23:00'') (timeToMinutes ''02:00'') True)
                [exampleBooking])"
    unfolding f .
  from v lt a b show ?thesis by blast
qed


subsection \<open>Promo codes\<close>




lemma find_promo_save:
  "promo_findById promoStore i = Some p \<Longrightarrow> promo_id q = i \<Longrightarrow>
   promo_findById (promo_save q promoStore) i = Some q"
  unfolding promo_findById_def promo_save_def
  by (induction promoStore) (auto split: if_splits)

lemma promo_findById_id: "promo_findById promoStore i = Some p \<Longrightarrow> promo_id p = i"
  unfolding promo_findById_def by (auto dest: find_Some_set)

lemma promo_save_twice:
  "promo_id q = promo_id q' \<Longrightarrow> promo_save q (promo_save q' promoStore) = promo_save q promoStore"
  unfolding promo_save_def by (induction promoStore) auto

text \<open>
  C8. Starting from a stored code that the customer has not used: consume succeeds and
  records the customer; a second consume fails with "Promo code already used by this
  customer" (and returns no changed store); release restores the code's document, and
  releasing again changes nothing; consume after the release succeeds again; and
  release for an id that no stored code has leaves the store as it is.
\<close>

theorem C8_consume_release_consume:
  assumes found: "promo_findById promoStore promoCodeId = Some p"
    and fresh: "customerId \<notin> set (usedByCustomers p)"
  shows "\<exists>s1 s3.
     markAsUsed promoStore promoCodeId customerId = Inr s1 \<and>
     promo_findById s1 promoCodeId = Some (p\<lparr>usedByCustomers := usedByCustomers p @ [customerId]\<rparr>) \<and>
     markAsUsed s1 promoCodeId customerId
       = Inl (BadRequestError ''Promo code already used by this customer'') \<and>
     promo_findById (removeUsage s1 promoCodeId customerId) promoCodeId = Some p \<and>
     removeUsage (removeUsage s1 promoCodeId customerId) promoCodeId customerId
       = removeUsage s1 promoCodeId customerId \<and>
     markAsUsed (removeUsage s1 promoCodeId customerId) promoCodeId customerId = Inr s3 \<and>
     promo_findById s3 promoCodeId = Some (p\<lparr>usedByCustomers := usedByCustomers p @ [customerId]\<rparr>) \<and>
     (\<forall>other. promo_findById promoStore other = None \<longrightarrow>
        removeUsage promoStore other customerId = promoStore)"
proof -
  define used where "used = p\<lparr>usedByCustomers := usedByCustomers p @ [customerId]\<rparr>"
  define s1 where "s1 = promo_save used promoStore"
  have pid: "promo_id p = promoCodeId" using found by (rule promo_findById_id)
  have uid: "promo_id used = promoCodeId" using pid by (simp add: used_def)
  have m1: "markAsUsed promoStore promoCodeId customerId = Inr s1"
    using found fresh by (simp add: markAsUsed_def s1_def used_def)
  have f1: "promo_findById s1 promoCodeId = Some used"
    unfolding s1_def using found uid by (rule find_promo_save)
  have m2: "markAsUsed s1 promoCodeId customerId
       = Inl (BadRequestError ''Promo code already used by this customer'')"
    using f1 by (simp add: markAsUsed_def used_def)
  have keep: "filter (\<lambda>i. i \<noteq> customerId) (usedByCustomers p) = usedByCustomers p"
    using fresh by (auto simp: filter_id_conv)
  have restore: "used\<lparr>usedByCustomers := filter (\<lambda>i. i \<noteq> customerId) (usedByCustomers used)\<rparr> = p"
    by (simp add: used_def keep)
  define s2 where "s2 = promo_save p s1"
  have r1: "removeUsage s1 promoCodeId customerId = s2"
    using f1 restore by (simp add: removeUsage_def s2_def)
  have f2: "promo_findById s2 promoCodeId = Some p"
    unfolding s2_def using f1 pid by (rule find_promo_save)
  have pp: "p\<lparr>usedByCustomers := filter (\<lambda>i. i \<noteq> customerId) (usedByCustomers p)\<rparr> = p"
    by (simp add: keep)
  have r2: "removeUsage s2 promoCodeId customerId = s2"
    using f2 pp by (simp add: removeUsage_def s2_def promo_save_twice)
  define s3 where "s3 = promo_save used s2"
  have m3: "markAsUsed s2 promoCodeId customerId = Inr s3"
    using f2 fresh by (simp add: markAsUsed_def s3_def used_def)
  have f3: "promo_findById s3 promoCodeId = Some used"
    unfolding s3_def using f2 uid by (rule find_promo_save)
  have none: "removeUsage promoStore other customerId = promoStore"
    if "promo_findById promoStore other = None" for other
    using that by (simp add: removeUsage_def)
  show ?thesis
    using m1 f1 m2 r1 f2 r2 m3 f3 none unfolding used_def by auto
qed

text \<open>The sequence on the one-code store.\<close>

theorem C8_consume_release_consume_witness:
  "promo_findById [examplePromo] 11 = Some examplePromo \<and>
   3 \<notin> set (usedByCustomers examplePromo) \<and>
   markAsUsed [examplePromo] 11 3 = Inr [examplePromo\<lparr>usedByCustomers := [3]\<rparr>] \<and>
   markAsUsed [examplePromo\<lparr>usedByCustomers := [3]\<rparr>] 11 3
     = Inl (BadRequestError ''Promo code already used by this customer'') \<and>
   removeUsage [examplePromo\<lparr>usedByCustomers := [3]\<rparr>] 11 3 = [examplePromo] \<and>
   removeUsage [examplePromo] 11 3 = [examplePromo] \<and>
   removeUsage [examplePromo] 12 3 = [examplePromo]"
proof -
  have found: "promo_findById [examplePromo] 11 = Some examplePromo"
    by (simp add: promo_findById_def examplePromo_def)
  have fresh: "3 \<notin> set (usedByCustomers examplePromo)" by (simp add: examplePromo_def)
  have s1: "markAsUsed [examplePromo] 11 3 = Inr [examplePromo\<lparr>usedByCustomers := [3]\<rparr>]"
    by (simp add: markAsUsed_def promo_findById_def promo_save_def examplePromo_def)
  have rm: "removeUsage [examplePromo\<lparr>usedByCustomers := [3]\<rparr>] 11 3 = [examplePromo]"
    by (simp add: removeUsage_def promo_findById_def promo_save_def examplePromo_def)
  have none: "promo_findById [examplePromo] 12 = None"
    by (simp add: promo_findById_def examplePromo_def)
  from C8_consume_release_consume [OF found fresh] s1 rm none
  have "markAsUsed [examplePromo\<lparr>usedByCustomers := [3]\<rparr>] 11 3
     = Inl (BadRequestError ''Promo code already used by this customer'') \<and>
     removeUsage [examplePromo] 11 3 = [examplePromo] \<and>
     removeUsage [examplePromo] 12 3 = [examplePromo]"
    by auto
  with found fresh s1 rm show ?thesis by simp
qed


subsection \<open>Additivity of the price\<close>




end
